theory Spec2Isabelle
  imports Main "HOL-Library.Word"
begin

unbundle bit_operations_syntax

section \<open>rm\_serial\_driver: the serial link driver of rm\_pioneer\_vision\<close>

text \<open>
  The development follows \<^verbatim>\<open>rm_serial_driver/src/rm_serial_driver.cpp\<close>. The two headers
  it includes, \<^verbatim>\<open>crc.hpp\<close> (the checksum engine) and \<^verbatim>\<open>packet.hpp\<close> (the packet
  structures and their byte images), are not part of the sources at hand; what they provide
  is modelled from the specification and marked as such.
\<close>

subsection \<open>Bytes and little-endian fields\<close>

type_synonym u8 = "8 word"
type_synonym u16 = "16 word"
type_synonym f32 = "32 word"  \<comment> \<open>a 32-bit float, as its bit pattern\<close>

definition u16_bytes :: "u16 \<Rightarrow> u8 list" where
  "u16_bytes w = [ucast w, ucast (drop_bit 8 w)]"

definition u16_of_bytes :: "u8 \<Rightarrow> u8 \<Rightarrow> u16" where
  "u16_of_bytes b0 b1 = ucast b0 OR push_bit 8 (ucast b1)"

definition f32_bytes :: "f32 \<Rightarrow> u8 list" where
  "f32_bytes w = [ucast w, ucast (drop_bit 8 w), ucast (drop_bit 16 w), ucast (drop_bit 24 w)]"

definition f32_of_bytes :: "u8 \<Rightarrow> u8 \<Rightarrow> u8 \<Rightarrow> u8 \<Rightarrow> f32" where
  "f32_of_bytes b0 b1 b2 b3 =
     ucast b0 OR push_bit 8 (ucast b1) OR push_bit 16 (ucast b2) OR push_bit 24 (ucast b3)"

definition bool_byte :: "bool \<Rightarrow> u8" where
  "bool_byte b = (if b then 1 else 0)"

subsection \<open>Errors\<close>

text \<open>
  The error kinds of the specification (its section 7) and the C++ exceptions of the code,
  as values.
\<close>

datatype error =
    InvalidInput      \<comment> \<open>checksum engine: buffer shorter than the checksum field\<close>
  | MalformedPacket   \<comment> \<open>codec: wrong frame length\<close>
  | OutOfBounds       \<comment> \<open>a read past the end of a byte buffer\<close>
  | OutOfRange        \<comment> \<open>\<^verbatim>\<open>std::out_of_range\<close> of \<^verbatim>\<open>vector::at\<close>\<close>
  | IoError           \<comment> \<open>an exception of the serial port\<close>
  | SendFailed

subsection \<open>Checksum engine\<close>

text \<open>
  The lookup table and the initial value are fixed constants of \<^verbatim>\<open>crc.hpp\<close>; they are
  taken as parameters.
\<close>

record crc16 =
  crc_init :: u16
  crc_table :: "u8 \<Rightarrow> u16"

text \<open>
  Modelled from the spec: \<^verbatim>\<open>crc.hpp\<close> is missing. One step of the table-driven CRC-16:
  the running value moves one byte down and is combined with the table entry selected by its
  low byte and the data byte.
\<close>

definition crc16_step :: "crc16 \<Rightarrow> u16 \<Rightarrow> u8 \<Rightarrow> u16" where
  "crc16_step c w b = drop_bit 8 w XOR crc_table c (ucast w XOR b)"

text \<open>
  Modelled from the spec: \<^verbatim>\<open>crc.hpp\<close> is missing. \<^verbatim>\<open>compute(bytes)\<close>: the CRC-16 of
  a byte span, from the fixed initial value, by table lookup; pure.
\<close>

definition compute :: "crc16 \<Rightarrow> u8 list \<Rightarrow> u16" where
  "compute c bs = foldl (crc16_step c) (crc_init c) bs"

text \<open>
  Modelled from the spec: \<^verbatim>\<open>crc.hpp\<close> is missing. \<^verbatim>\<open>verify\<close> recomputes the checksum
  over all bytes but the trailing two and compares it with the stored value, low byte first.
  A buffer shorter than the checksum field is \<open>InvalidInput\<close>.
\<close>

definition Verify_CRC16_Check_Sum :: "crc16 \<Rightarrow> u8 list \<Rightarrow> error + bool" where
  "Verify_CRC16_Check_Sum c bs =
     (if length bs < 2 then Inl InvalidInput
      else Inr (drop (length bs - 2) bs = u16_bytes (compute c (take (length bs - 2) bs))))"

text \<open>
  Modelled from the spec: \<^verbatim>\<open>crc.hpp\<close> is missing. \<^verbatim>\<open>append\<close> computes the checksum
  over the bytes before the checksum field and writes it into the final two bytes of the
  buffer, low byte first. A buffer shorter than the checksum field is \<open>InvalidInput\<close>.
\<close>

definition Append_CRC16_Check_Sum :: "crc16 \<Rightarrow> u8 list \<Rightarrow> error + u8 list" where
  "Append_CRC16_Check_Sum c bs =
     (if length bs < 2 then Inl InvalidInput
      else Inr (take (length bs - 2) bs @ u16_bytes (compute c (take (length bs - 2) bs))))"

text \<open>
  A table for evaluation: the entries of the reflected CRC-16 with polynomial \<open>0x8408\<close>,
  computed bit by bit.
\<close>

definition crc_bit :: "u16 \<Rightarrow> u16" where
  "crc_bit w = (if bit w 0 then drop_bit 1 w XOR 0x8408 else drop_bit 1 w)"

definition ccitt_table :: "u8 \<Rightarrow> u16" where
  "ccitt_table b = (crc_bit ^^ 8) (ucast b)"

definition ccitt :: crc16 where
  "ccitt = \<lparr>crc_init = 0xFFFF, crc_table = ccitt_table\<rparr>"

subsection \<open>Packet codec\<close>

text \<open>
  Modelled from the spec: \<^verbatim>\<open>packet.hpp\<close> is missing. The inbound frame (section 6 of
  the specification): header at offset 0, robot colour at 1, pitch at 2, yaw at 6, checksum
  at 10; 12 bytes, no padding.
\<close>

record ReceivePacket =
  header_byte :: u8
  robot_color :: u8
  pitch :: f32
  yaw :: f32
  rx_checksum :: u16

definition sizeof_ReceivePacket :: nat where
  "sizeof_ReceivePacket = 12"

text \<open>
  Modelled from the spec: \<^verbatim>\<open>packet.hpp\<close> is missing. The outbound frame: target-found
  flag at offset 0, target-colour flag at 1, task mode at 2, position at 3, velocity at 15,
  checksum at 27; 29 bytes, no padding. The fields \<^verbatim>\<open>x y z vx vy vz\<close> of the code are
  \<open>pos_x\<close> ... \<open>vel_z\<close> here.
\<close>

record SendPacket =
  target_found :: bool
  target_color :: bool
  task_mode :: u8
  pos_x :: f32
  pos_y :: f32
  pos_z :: f32
  vel_x :: f32
  vel_y :: f32
  vel_z :: f32
  tx_checksum :: u16

definition sizeof_SendPacket :: nat where
  "sizeof_SendPacket = 29"

text \<open>Reads of a byte buffer, checked against its length.\<close>

definition read_u8 :: "u8 list \<Rightarrow> nat \<Rightarrow> error + u8" where
  "read_u8 bs i = (if i < length bs then Inr (bs ! i) else Inl OutOfBounds)"

definition read_u16 :: "u8 list \<Rightarrow> nat \<Rightarrow> error + u16" where
  "read_u16 bs i =
     (if i + 2 \<le> length bs then Inr (u16_of_bytes (bs ! i) (bs ! (i + 1))) else Inl OutOfBounds)"

definition read_f32 :: "u8 list \<Rightarrow> nat \<Rightarrow> error + f32" where
  "read_f32 bs i =
     (if i + 4 \<le> length bs
      then Inr (f32_of_bytes (bs ! i) (bs ! (i + 1)) (bs ! (i + 2)) (bs ! (i + 3)))
      else Inl OutOfBounds)"

definition bind_err :: "error + 'a \<Rightarrow> ('a \<Rightarrow> error + 'b) \<Rightarrow> error + 'b" where
  "bind_err r f = (case r of Inl e \<Rightarrow> Inl e | Inr v \<Rightarrow> f v)"

text \<open>
  Modelled from the spec: \<^verbatim>\<open>packet.hpp\<close> is missing. \<^verbatim>\<open>decode_receive\<close>, called
  \<^verbatim>\<open>fromVector\<close> in the code: requires the length of the frame, then reads the fields in
  declared order, little-endian; \<open>MalformedPacket\<close> on any other length.
\<close>

definition fromVector :: "u8 list \<Rightarrow> error + ReceivePacket" where
  "fromVector data =
     (if length data \<noteq> sizeof_ReceivePacket then Inl MalformedPacket
      else
        bind_err (read_u8 data 0) (\<lambda>h.
        bind_err (read_u8 data 1) (\<lambda>c.
        bind_err (read_f32 data 2) (\<lambda>p.
        bind_err (read_f32 data 6) (\<lambda>w.
        bind_err (read_u16 data 10) (\<lambda>k.
          Inr \<lparr>header_byte = h, robot_color = c, pitch = p, yaw = w, rx_checksum = k\<rparr>))))))"

text \<open>
  Modelled from the spec: \<^verbatim>\<open>packet.hpp\<close> is missing. The byte image of a received
  packet, which the code hands to the checksum engine
  (\<^verbatim>\<open>reinterpret_cast<const uint8_t *>(&packet)\<close>, \<^verbatim>\<open>sizeof(packet)\<close>).
\<close>

definition ReceivePacket_image :: "ReceivePacket \<Rightarrow> u8 list" where
  "ReceivePacket_image p =
     [header_byte p, robot_color p] @ f32_bytes (pitch p) @ f32_bytes (yaw p) @ u16_bytes (rx_checksum p)"

text \<open>
  Modelled from the spec: \<^verbatim>\<open>packet.hpp\<close> is missing. \<^verbatim>\<open>encode_send\<close>, called
  \<^verbatim>\<open>toVector\<close> in the code: the fields in declared order and width, little-endian.
\<close>

definition toVector :: "SendPacket \<Rightarrow> u8 list" where
  "toVector p =
     [bool_byte (target_found p), bool_byte (target_color p), task_mode p]
     @ f32_bytes (pos_x p) @ f32_bytes (pos_y p) @ f32_bytes (pos_z p)
     @ f32_bytes (vel_x p) @ f32_bytes (vel_y p) @ f32_bytes (vel_z p)
     @ u16_bytes (tx_checksum p)"

subsection \<open>The node: state, collaborators and what they are asked to do\<close>

text \<open>
  Everything the node does to the outside is recorded, in order, as an event: log entries
  (with the numbers given to the format string), publications, parameter requests, sleeps
  and the operations on the serial port.
\<close>

datatype level = Info | Warn | Error

datatype event =
    Log level string "int list"
  | PublishJointState "(string \<times> f32) list"   \<comment> \<open>\<^verbatim>\<open>/joint_states\<close>: joint names with positions\<close>
  | PublishLatency                              \<comment> \<open>\<^verbatim>\<open>/latency\<close>\<close>
  | SetParameters string int                    \<comment> \<open>a request to \<^verbatim>\<open>armor_detector\<close>\<close>
  | Sleep nat                                   \<comment> \<open>\<^verbatim>\<open>rclcpp::sleep_for\<close>, in seconds\<close>
  | PortClose
  | PortOpen bool                               \<comment> \<open>\<^verbatim>\<open>open()\<close>, and whether it succeeded\<close>
  | PortSend "u8 list" bool                     \<comment> \<open>\<^verbatim>\<open>send(data)\<close>, and whether it succeeded\<close>

text \<open>
  The members of \<^verbatim>\<open>RMSerialDriver\<close> that the code reads and writes, followed by the
  answers of its collaborators, each a script consumed from the front:
  \<^item> \<open>shutdown\<close>: how many more times \<^verbatim>\<open>rclcpp::ok()\<close> answers true; \<open>None\<close> when the
    process is never told to stop;
  \<^item> \<open>open_results\<close>: whether each coming \<^verbatim>\<open>port()->open()\<close> succeeds (false: it throws);
  \<^item> \<open>ready_results\<close>: the coming answers of \<^verbatim>\<open>service_is_ready()\<close> (not ready once the
    script is used up);
  \<^item> \<open>set_results\<close>: for each coming \<^verbatim>\<open>set_parameters\<close> request, what its callback has
    stored in \<^verbatim>\<open>set_auto_aim_success\<close> by the time the flag is tested: \<open>Some b\<close> when the
    callback has run with \<^verbatim>\<open>results[0].successful = b\<close>, \<open>None\<close> when it has not run yet
    (also once the script is used up).
  \<^verbatim>\<open>present_color_\<close> is declared in the missing header; it is a signed 32-bit integer
  (initialised to \<open>-1\<close>, printed with \<^verbatim>\<open>%d\<close>), held here as the integer it denotes.
\<close>

record driver =
  present_color :: int
  port_open :: bool
  events :: "event list"
  shutdown :: "nat option"
  open_results :: "bool list"
  ready_results :: "bool list"
  set_results :: "bool option list"

definition emit :: "event \<Rightarrow> driver \<Rightarrow> driver" where
  "emit e s = s\<lparr>events := events s @ [e]\<rparr>"

text \<open>\<^verbatim>\<open>rclcpp::ok()\<close>.\<close>

definition ok :: "driver \<Rightarrow> bool \<times> driver" where
  "ok s =
     (case shutdown s of
        None \<Rightarrow> (True, s)
      | Some 0 \<Rightarrow> (False, s)
      | Some (Suc k) \<Rightarrow> (True, s\<lparr>shutdown := Some k\<rparr>))"

text \<open>\<^verbatim>\<open>auto_aim_param_client_->service_is_ready()\<close>.\<close>

definition service_is_ready :: "driver \<Rightarrow> bool \<times> driver" where
  "service_is_ready s =
     (case ready_results s of
        [] \<Rightarrow> (False, s)
      | r # rs \<Rightarrow> (r, s\<lparr>ready_results := rs\<rparr>))"

text \<open>
  \<^verbatim>\<open>auto_aim_param_client_->set_parameters\<close> with its callback: the request goes out, and
  the value returned is what \<^verbatim>\<open>set_auto_aim_success\<close> holds when the caller tests it
  (initially false, overwritten by the callback if it has run).
\<close>

definition set_parameters :: "string \<Rightarrow> int \<Rightarrow> driver \<Rightarrow> bool \<times> driver" where
  "set_parameters name v s =
     (let s1 = emit (SetParameters name v) s in
      case set_results s1 of
        [] \<Rightarrow> (False, s1)
      | r # rs \<Rightarrow> (r = Some True, s1\<lparr>set_results := rs\<rparr>))"

subsection \<open>Reconnection: \<^verbatim>\<open>RMSerialDriver::reopenPort\<close>\<close>

text \<open>
  The recursion of the code ends when an open succeeds or the process is told to stop. The
  result is \<open>None\<close> when the script of open outcomes is used up before either happens.
  Of the calls inside the \<^verbatim>\<open>try\<close> block only \<^verbatim>\<open>open()\<close> is taken to throw; after a
  failed open the port is closed.
\<close>

function reopenPort :: "driver \<Rightarrow> driver option" where
  "reopenPort s =
     (let s1 = emit (Log Warn ''Attempting to reopen port'' []) s;
          s2 = (if port_open s1 then emit PortClose (s1\<lparr>port_open := False\<rparr>) else s1)
      in case open_results s2 of
           [] \<Rightarrow> None
         | r # rs \<Rightarrow>
             if r then
               Some (emit (Log Info ''Successfully reopened port'' [])
                      (emit (PortOpen True) (s2\<lparr>open_results := rs, port_open := True\<rparr>)))
             else
               let s3 = emit (Log Error ''Error while reopening port: %s'' [])
                          (emit (PortOpen False) (s2\<lparr>open_results := rs\<rparr>));
                   (running, s4) = ok s3
               in if running then reopenPort (emit (Sleep 1) s4) else Some s4)"
  by pat_completeness auto

termination reopenPort
  apply (relation "measure (\<lambda>s. length (open_results s))")
   apply simp
  apply (auto simp: emit_def ok_def split: option.splits nat.splits if_splits)
  done

declare reopenPort.simps [simp del]

subsection \<open>Colour change: \<^verbatim>\<open>RMSerialDriver::requestforChangeColor\<close>\<close>

definition requestforChangeColor :: "u8 \<Rightarrow> driver \<Rightarrow> driver" where
  "requestforChangeColor color s =
     (let (ready, s1) = service_is_ready s in
      if ready then
        let (set_auto_aim_success, s2) =
              set_parameters ''detect_color'' (if color = 0 then 1 else 0) s1
        in if set_auto_aim_success then
             emit (Log Info ''Successfully set color: %d'' [uint color])
               (s2\<lparr>present_color := uint color\<rparr>)
           else emit (Log Error ''Failed to set color'' []) s2
      else emit (Sleep 1) (emit (Log Error ''remote parameter server is not ready'' []) s1))"

subsection \<open>The receive loop: \<^verbatim>\<open>RMSerialDriver::receiveData\<close>\<close>

text \<open>
  The inbound side of the serial line: the bytes that arrive, and the points at which a
  read throws. \<^verbatim>\<open>port()->receive(buffer)\<close> fills the whole buffer (the transport of section
  6 of the specification): it takes as many bytes as the buffer holds, throws at a fault
  (the bytes read before it are lost with the buffer), and is still waiting when the line
  has no more to give.
\<close>

datatype rx = Byte u8 | Fault

datatype read = Got "u8 list" "rx list" | Raised "rx list" | Pending

fun receive :: "nat \<Rightarrow> rx list \<Rightarrow> read" where
  "receive 0 ch = Got [] ch"
| "receive (Suc n) [] = Pending"
| "receive (Suc n) (Fault # ch) = Raised ch"
| "receive (Suc n) (Byte b # ch) =
     (case receive n ch of
        Got bs ch' \<Rightarrow> Got (b # bs) ch'
      | Raised ch' \<Rightarrow> Raised ch'
      | Pending \<Rightarrow> Pending)"

text \<open>
  The body of the \<^verbatim>\<open>try\<close> block, once: it completes (\<open>Continue\<close>), throws into the
  handler (\<open>Thrown\<close>), or waits in a read for bytes that have not arrived (\<open>Blocked\<close>). An
  error of the codec or of the checksum engine is an exception like any other.
\<close>

datatype step = Continue "rx list" driver | Thrown "rx list" driver | Blocked driver

definition receive_body :: "crc16 \<Rightarrow> rx list \<Rightarrow> driver \<Rightarrow> step" where
  "receive_body c ch s =
     (case receive 1 ch of
        Pending \<Rightarrow> Blocked s
      | Raised ch1 \<Rightarrow> Thrown ch1 s
      | Got header ch1 \<Rightarrow>
          if header ! 0 = 0x5A then
            (case receive (sizeof_ReceivePacket - 1) ch1 of
               Pending \<Rightarrow> Blocked s
             | Raised ch2 \<Rightarrow> Thrown ch2 s
             | Got data ch2 \<Rightarrow>
                 (case fromVector (header ! 0 # data) of
                    Inl e \<Rightarrow> Thrown ch2 s
                  | Inr packet \<Rightarrow>
                      (case Verify_CRC16_Check_Sum c (ReceivePacket_image packet) of
                         Inl e \<Rightarrow> Thrown ch2 s
                       | Inr crc_ok \<Rightarrow>
                           if crc_ok then
                             let s1 = emit (PublishJointState
                                        [(''pitch_joint'', pitch packet), (''yaw_joint'', yaw packet)]) s
                             in Continue ch2
                                  (if uint (robot_color packet) \<noteq> present_color s1
                                   then requestforChangeColor (robot_color packet) s1
                                   else s1)
                           else Continue ch2 (emit (Log Error ''CRC error!'' []) s))))
          else Continue ch1 (emit (Log Warn ''Invalid header: %02X'' [uint (header ! 0)]) s))"

text \<open>
  The loop. It is left when \<^verbatim>\<open>rclcpp::ok()\<close> answers false (\<open>Exited\<close>); on the bytes given
  it may also end waiting in a read (\<open>Waiting\<close>) or inside a reconnection whose script of
  open outcomes is used up (\<open>Reopening\<close>).
\<close>

datatype run = Exited driver | Waiting driver | Reopening

function receiveData :: "crc16 \<Rightarrow> rx list \<Rightarrow> driver \<Rightarrow> run" where
  "receiveData c ch s =
     (let (running, s0) = ok s in
      if running then
        (case receive_body c ch s0 of
           Blocked s1 \<Rightarrow> Waiting s1
         | Continue ch1 s1 \<Rightarrow> receiveData c ch1 s1
         | Thrown ch1 s1 \<Rightarrow>
             (case reopenPort (emit (Log Error ''Error while receiving data: %s'' []) s1) of
                None \<Rightarrow> Reopening
              | Some s2 \<Rightarrow> receiveData c ch1 s2))
      else Exited s0)"
  by pat_completeness auto
termination
proof (relation "measure (\<lambda>(c, ch, s). length ch)")
  have got: "length ch' + n = length ch" if "receive n ch = Got bs ch'" for n ch bs ch'
    using that
    by (induction n ch arbitrary: bs ch' rule: receive.induct) (auto split: read.splits)
  have raised: "length ch' < length ch" if "receive n ch = Raised ch'" for n ch ch'
    using that
    by (induction n ch arbitrary: ch' rule: receive.induct) (auto split: read.splits)
  have continue: "length ch' < length ch" if "receive_body c ch s = Continue ch' s'"
    for c ch s ch' s'
    using that
    by (auto simp: receive_body_def Let_def sizeof_ReceivePacket_def
          split: read.splits if_splits sum.splits dest!: got)
  have thrown: "length ch' < length ch" if "receive_body c ch s = Thrown ch' s'"
    for c ch s ch' s'
    using that
    by (auto simp: receive_body_def Let_def sizeof_ReceivePacket_def
          split: read.splits if_splits sum.splits dest!: got raised)
  show "wf (measure (\<lambda>(c, ch, s). length ch))"
    by simp
  show "((c, ch1, s1), (c, ch, s)) \<in> measure (\<lambda>(c, ch, s). length ch)"
    if "receive_body c ch s0 = Continue ch1 s1" for c ch s s0 ch1 s1
    using continue [OF that] by simp
  show "((c, ch1, s2), (c, ch, s)) \<in> measure (\<lambda>(c, ch, s). length ch)"
    if "receive_body c ch s0 = Thrown ch1 s1" for c ch s s0 ch1 s1 s2
    using thrown [OF that] by simp
qed

declare receiveData.simps [simp del]

subsection \<open>The send path: \<^verbatim>\<open>RMSerialDriver::sendData\<close>\<close>

text \<open>
  The message of \<^verbatim>\<open>/processor/target\<close>: the flag, and position and velocity as doubles
  (their bit patterns). The narrowing of a double to the packet's float is a parameter.
\<close>

type_synonym f64 = "64 word"

record Target =
  msg_target_found :: bool
  position_x :: f64
  position_y :: f64
  position_z :: f64
  velocity_x :: f64
  velocity_y :: f64
  velocity_z :: f64

text \<open>
  Lines 136 to 148: the packet is filled, the checksum is appended in place over the
  packet's byte image (whose checksum field is not initialised by the code; it is zero
  here, and overwritten), and the image is copied into the vector that is sent.
\<close>

definition send_frame :: "crc16 \<Rightarrow> (f64 \<Rightarrow> f32) \<Rightarrow> Target \<Rightarrow> driver \<Rightarrow> error + u8 list" where
  "send_frame c narrow msg s =
     (let packet = \<lparr>target_found = msg_target_found msg,
                    target_color = (present_color s = 0),
                    task_mode = 0,
                    pos_x = narrow (position_x msg),
                    pos_y = narrow (position_y msg),
                    pos_z = narrow (position_z msg),
                    vel_x = narrow (velocity_x msg),
                    vel_y = narrow (velocity_y msg),
                    vel_z = narrow (velocity_z msg),
                    tx_checksum = 0\<rparr>
      in Append_CRC16_Check_Sum c (toVector packet))"

text \<open>
  What the caller of a \<^verbatim>\<open>void\<close> member function sees: it returns, or an exception leaves
  it.
\<close>

datatype completion = Returns | Throws error

text \<open>
  \<open>send_ok\<close> is the outcome of \<^verbatim>\<open>port()->send(data)\<close> (false: it throws). The handler
  catches every \<^verbatim>\<open>std::exception\<close>, logs and reconnects. The result is \<open>None\<close> when the
  reconnection uses up its script of open outcomes.
\<close>

definition sendData :: "crc16 \<Rightarrow> (f64 \<Rightarrow> f32) \<Rightarrow> Target \<Rightarrow> bool \<Rightarrow> driver \<Rightarrow> (completion \<times> driver) option" where
  "sendData c narrow msg send_ok s =
     (let handler = (\<lambda>s'. map_option (Pair Returns)
                       (reopenPort (emit (Log Error ''Error while sending data: %s'' []) s')))
      in case send_frame c narrow msg s of
           Inl e \<Rightarrow> handler s
         | Inr data \<Rightarrow>
             if send_ok then Some (Returns, emit PublishLatency (emit (PortSend data True) s))
             else handler (emit (PortSend data False) s))"

subsection \<open>Start-up: the remote parameter fetch of the constructor\<close>

text \<open>\<^verbatim>\<open>std::vector::at\<close>: checked, throws \<^verbatim>\<open>std::out_of_range\<close>.\<close>

definition vector_at :: "'a list \<Rightarrow> nat \<Rightarrow> error + 'a" where
  "vector_at v i = (if i < length v then Inr (v ! i) else Inl OutOfRange)"

text \<open>The names the constructor asks \<^verbatim>\<open>armor_detector\<close> for (line 46).\<close>

definition requested_parameters :: "string list" where
  "requested_parameters = [''detect_color'']"

text \<open>
  The conversion of the 64-bit result of \<^verbatim>\<open>as_int()\<close> to the 32-bit member: the value
  modulo \<open>2 ^ 32\<close>, read as two's complement.
\<close>

definition int32_of :: "int \<Rightarrow> int" where
  "int32_of v = sint (word_of_int v :: 32 word)"

text \<open>
  The completion callback (lines 47 to 50) on the vector of parameters returned, each a
  name with its integer value.
\<close>

definition get_parameters_callback :: "(string \<times> int) list \<Rightarrow> driver \<Rightarrow> error + driver" where
  "get_parameters_callback result s =
     (case vector_at result 1 of
        Inl e \<Rightarrow> Inl e
      | Inr p \<Rightarrow>
          Inr (emit (Log Info ''Present color: %d.'' [int32_of (snd p)])
                 (s\<lparr>present_color := int32_of (snd p)\<rparr>)))"

subsection \<open>Runs and scenarios\<close>

text \<open>
  The process stays alive for \<open>n\<close> more tests of \<^verbatim>\<open>rclcpp::ok()\<close>, and the state after \<open>n\<close>
  such tests have answered true.
\<close>

definition alive_for :: "nat \<Rightarrow> driver \<Rightarrow> bool" where
  "alive_for n s = (case shutdown s of None \<Rightarrow> True | Some k \<Rightarrow> n \<le> k)"

definition spend :: "nat \<Rightarrow> driver \<Rightarrow> driver" where
  "spend n s = s\<lparr>shutdown := map_option (\<lambda>k. k - n) (shutdown s)\<rparr>"

text \<open>
  The reconnection policy in the words of the specification (its section 4.4), as the
  trace it leaves when \<open>n\<close> opens fail before one succeeds: if the channel is open, close
  it; attempt to open; on failure log the error, wait one second and retry; on success
  log it.
\<close>

fun reconnect_trace :: "bool \<Rightarrow> nat \<Rightarrow> event list" where
  "reconnect_trace was_open 0 =
     Log Warn ''Attempting to reopen port'' [] # (if was_open then [PortClose] else [])
     @ [PortOpen True, Log Info ''Successfully reopened port'' []]"
| "reconnect_trace was_open (Suc n) =
     Log Warn ''Attempting to reopen port'' [] # (if was_open then [PortClose] else [])
     @ [PortOpen False, Log Error ''Error while reopening port: %s'' [], Sleep 1]
     @ reconnect_trace False n"

text \<open>
  A colour-change request is granted when the parameter service is ready, the authority
  accepts the value, and the acknowledgement has been stored by the time it is looked at.
\<close>

definition granted :: "driver \<Rightarrow> bool" where
  "granted s =
     (case ready_results s of
        [] \<Rightarrow> False
      | r # rs \<Rightarrow> r \<and> (case set_results s of [] \<Rightarrow> False | a # as \<Rightarrow> a = Some True))"

text \<open>The writes to the serial port and the parameter requests among a list of events.\<close>

fun is_send :: "event \<Rightarrow> bool" where
  "is_send (PortSend data r) = True"
| "is_send e = False"

fun is_request :: "event \<Rightarrow> bool" where
  "is_request (SetParameters name v) = True"
| "is_request e = False"

text \<open>
  The node as the constructor leaves it (\<^verbatim>\<open>present_color_(-1)\<close>, the port open), with a
  process that is never told to stop and collaborators that have nothing to answer.
\<close>

definition boot :: driver where
  "boot = \<lparr>present_color = - 1, port_open = True, events = [], shutdown = None,
           open_results = [], ready_results = [], set_results = []\<rparr>"

text \<open>
  A command of the specification's scenario: target found, position \<open>(1, 2, 3)\<close>, velocity
  zero; and the narrowing of doubles on the values it uses.
\<close>

definition scenario_msg :: Target where
  "scenario_msg = \<lparr>msg_target_found = True,
                    position_x = 0x3FF0000000000000, position_y = 0x4000000000000000,
                    position_z = 0x4008000000000000,
                    velocity_x = 0, velocity_y = 0, velocity_z = 0\<rparr>"

definition scenario_narrow :: "f64 \<Rightarrow> f32" where
  "scenario_narrow d =
     (if d = 0x3FF0000000000000 then 0x3F800000
      else if d = 0x4000000000000000 then 0x40000000
      else if d = 0x4008000000000000 then 0x40400000
      else 0)"

section \<open>Properties\<close>

subsection \<open>Little-endian fields and byte images\<close>

lemma u16_bytes_of: "u16_bytes (u16_of_bytes a b) = [a, b]"
  unfolding u16_of_bytes_def u16_bytes_def
  apply simp
  apply (rule conjI; rule bit_word_eqI)
   apply (auto simp: bit_simps dest: bit_imp_le_length)
  done

lemma f32_bytes_of: "f32_bytes (f32_of_bytes a b c d) = [a, b, c, d]"
  unfolding f32_of_bytes_def f32_bytes_def
  apply simp
  apply (intro conjI; rule bit_word_eqI)
     apply (auto simp: bit_simps dest: bit_imp_le_length)
  done

lemma length_u16_bytes [simp]: "length (u16_bytes w) = 2"
  by (simp add: u16_bytes_def)

lemma length_f32_bytes [simp]: "length (f32_bytes w) = 4"
  by (simp add: f32_bytes_def)

lemma list_of_length_12:
  "length bs = 12 \<Longrightarrow>
   bs = [bs ! 0, bs ! 1, bs ! 2, bs ! 3, bs ! 4, bs ! 5, bs ! 6, bs ! 7, bs ! 8, bs ! 9,
         bs ! 10, bs ! 11]"
  by (auto simp: eval_nat_numeral length_Suc_conv)

lemma fromVector_exact:
  "length bs = 12 \<Longrightarrow>
   fromVector bs =
     Inr \<lparr>header_byte = bs ! 0, robot_color = bs ! 1,
          pitch = f32_of_bytes (bs ! 2) (bs ! 3) (bs ! 4) (bs ! 5),
          yaw = f32_of_bytes (bs ! 6) (bs ! 7) (bs ! 8) (bs ! 9),
          rx_checksum = u16_of_bytes (bs ! 10) (bs ! 11)\<rparr>"
  by (simp add: fromVector_def sizeof_ReceivePacket_def bind_err_def read_u8_def
        read_f32_def read_u16_def)

lemma fromVector_other: "length bs \<noteq> 12 \<Longrightarrow> fromVector bs = Inl MalformedPacket"
  by (simp add: fromVector_def sizeof_ReceivePacket_def)

lemma image_fromVector:
  assumes "fromVector bs = Inr p"
  shows "ReceivePacket_image p = bs"
proof -
  have len: "length bs = 12"
    using assms by (simp add: fromVector_def sizeof_ReceivePacket_def split: if_splits)
  from fromVector_exact [OF len] assms
  have "ReceivePacket_image p =
          [bs ! 0, bs ! 1, bs ! 2, bs ! 3, bs ! 4, bs ! 5, bs ! 6, bs ! 7, bs ! 8, bs ! 9,
           bs ! 10, bs ! 11]"
    by (auto simp: ReceivePacket_image_def f32_bytes_of u16_bytes_of)
  with list_of_length_12 [OF len] show ?thesis by simp
qed

text \<open>Evaluating the checksum with the table \<open>ccitt_table\<close>.\<close>

lemma ccitt_table_unfold:
  "ccitt_table b =
     crc_bit (crc_bit (crc_bit (crc_bit (crc_bit (crc_bit (crc_bit (crc_bit (ucast b))))))))"
  by (simp add: ccitt_table_def eval_nat_numeral)

lemmas ccitt_eval =
  compute_def crc16_step_def ccitt_def ccitt_table_unfold crc_bit_def u16_bytes_def

subsection \<open>Checksum engine\<close>

text \<open>
  C1. Checksum round trip: for every byte buffer \<open>B\<close> sized to include the trailing
  two-byte checksum field, appending the CRC-16 checksum to \<open>B\<close> succeeds, keeps the size,
  and verifying the resulting buffer returns true. This holds for every table and initial
  value.
\<close>

theorem checksum_round_trip:
  "2 \<le> length B \<Longrightarrow>
   \<exists>B'. Append_CRC16_Check_Sum c B = Inr B' \<and> length B' = length B \<and>
        Verify_CRC16_Check_Sum c B' = Inr True"
  by (simp add: Append_CRC16_Check_Sum_def Verify_CRC16_Check_Sum_def)

theorem checksum_round_trip_witness:
  "2 \<le> length [0x5A, 0, 0, 0, 0x80, 0x3F, 0, 0, 0, 0x40, 0, 0 :: u8] \<and>
   Append_CRC16_Check_Sum ccitt [0x5A, 0, 0, 0, 0x80, 0x3F, 0, 0, 0, 0x40, 0, 0]
     = Inr [0x5A, 0, 0, 0, 0x80, 0x3F, 0, 0, 0, 0x40, 0x42, 0xD7] \<and>
   Verify_CRC16_Check_Sum ccitt [0x5A, 0, 0, 0, 0x80, 0x3F, 0, 0, 0, 0x40, 0x42, 0xD7] = Inr True"
  using checksum_round_trip [of "[0x5A, 0, 0, 0, 0x80, 0x3F, 0, 0, 0, 0x40, 0, 0]" ccitt]
  by (simp add: Append_CRC16_Check_Sum_def Verify_CRC16_Check_Sum_def ccitt_eval)

subsection \<open>Packet codec\<close>

text \<open>
  C8. Decode length guard: on every byte buffer whose length differs from the size of
  \<open>ReceivePacket\<close>, 12 bytes, decoding fails with \<open>MalformedPacket\<close>; on a buffer of exactly
  that length it yields the declared fields in order, little-endian (header at 0, robot
  colour at 1, pitch at 2, yaw at 6, checksum at 10), so that the byte image of the decoded
  packet is the buffer again; and no read of the decoder is ever out of bounds.
\<close>

theorem fromVector_length_guard:
  "(length bs \<noteq> 12 \<longrightarrow> fromVector bs = Inl MalformedPacket) \<and>
   (length bs = 12 \<longrightarrow>
      fromVector bs =
        Inr \<lparr>header_byte = bs ! 0, robot_color = bs ! 1,
             pitch = f32_of_bytes (bs ! 2) (bs ! 3) (bs ! 4) (bs ! 5),
             yaw = f32_of_bytes (bs ! 6) (bs ! 7) (bs ! 8) (bs ! 9),
             rx_checksum = u16_of_bytes (bs ! 10) (bs ! 11)\<rparr>) \<and>
   (\<forall>p. fromVector bs = Inr p \<longrightarrow> ReceivePacket_image p = bs) \<and>
   fromVector bs \<noteq> Inl OutOfBounds"
  using fromVector_exact [of bs] fromVector_other [of bs] image_fromVector [of bs]
  by (cases "length bs = 12") auto

theorem fromVector_length_guard_witness:
  "fromVector [0x5A, 1, 0, 0, 0x80, 0x3F, 0, 0, 0, 0x40, 0x42] = Inl MalformedPacket \<and>
   fromVector [0x5A, 1, 0, 0, 0x80, 0x3F, 0, 0, 0, 0x40, 0x42, 0xD7] =
     Inr \<lparr>header_byte = 0x5A, robot_color = 1, pitch = 0x3F800000, yaw = 0x40000000,
          rx_checksum = 0xD742\<rparr> \<and>
   ReceivePacket_image \<lparr>header_byte = 0x5A, robot_color = 1, pitch = 0x3F800000,
          yaw = 0x40000000, rx_checksum = 0xD742\<rparr> =
     [0x5A, 1, 0, 0, 0x80, 0x3F, 0, 0, 0, 0x40, 0x42, 0xD7]"
  using fromVector_length_guard [of "[0x5A, 1, 0, 0, 0x80, 0x3F, 0, 0, 0, 0x40, 0x42]"]
        fromVector_length_guard [of "[0x5A, 1, 0, 0, 0x80, 0x3F, 0, 0, 0, 0x40, 0x42, 0xD7]"]
  by (simp add: f32_of_bytes_def u16_of_bytes_def)

subsection \<open>Reconnection\<close>

lemma spend_0 [simp]: "spend 0 s = s"
  by (cases "shutdown s") (simp_all add: spend_def)

lemma shutdown_same: "shutdown s = v \<Longrightarrow> s\<lparr>shutdown := v\<rparr> = s"
  by (cases s) simp

lemma port_open_same: "port_open s = v \<Longrightarrow> s\<lparr>port_open := v\<rparr> = s"
  by (cases s) simp

lemma reopenPort_no_script: "open_results s = [] \<Longrightarrow> reopenPort s = None"
  by (subst reopenPort.simps) (simp add: Let_def emit_def)

lemma reopenPort_opened:
  "open_results s = True # rs \<Longrightarrow>
   reopenPort s =
     Some (s\<lparr>port_open := True, open_results := rs,
             events := events s @ reconnect_trace (port_open s) 0\<rparr>)"
  by (subst reopenPort.simps) (simp add: Let_def emit_def)

lemma reopenPort_stopped:
  "open_results s = False # rs \<Longrightarrow> shutdown s = Some 0 \<Longrightarrow>
   reopenPort s =
     Some (s\<lparr>port_open := False, open_results := rs,
             events := events s @
               Log Warn ''Attempting to reopen port'' [] # (if port_open s then [PortClose] else [])
               @ [PortOpen False, Log Error ''Error while reopening port: %s'' []]\<rparr>)"
  by (subst reopenPort.simps) (simp add: Let_def emit_def ok_def)

lemma reopenPort_retry:
  "reopenPort s =
     reopenPort ((spend 1 s)\<lparr>port_open := False, open_results := rs,
             events := events s @
               Log Warn ''Attempting to reopen port'' [] # (if port_open s then [PortClose] else [])
               @ [PortOpen False, Log Error ''Error while reopening port: %s'' [], Sleep 1]\<rparr>)"
  if "open_results s = False # rs" "alive_for 1 s"
proof (cases "shutdown s")
  case None
  with that show ?thesis
    by (subst reopenPort.simps) (auto simp: Let_def emit_def ok_def spend_def intro!: arg_cong [where f = reopenPort] driver.equality)
next
  case (Some k)
  with that obtain j where "k = Suc j"
    by (cases k) (auto simp: alive_for_def)
  with Some that show ?thesis
    by (subst reopenPort.simps) (auto simp: Let_def emit_def ok_def spend_def intro!: arg_cong [where f = reopenPort] driver.equality)
qed

lemma reopenPort_success:
  "open_results s = replicate n False @ True # rest \<Longrightarrow> alive_for n s \<Longrightarrow>
   reopenPort s =
     Some ((spend n s)\<lparr>port_open := True, open_results := rest,
                       events := events s @ reconnect_trace (port_open s) n\<rparr>)"
proof (induction n arbitrary: s)
  case 0
  then show ?case
    by (simp add: reopenPort_opened)
next
  case (Suc n)
  let ?t = "(spend 1 s)\<lparr>port_open := False, open_results := replicate n False @ True # rest,
             events := events s @
               Log Warn ''Attempting to reopen port'' [] # (if port_open s then [PortClose] else [])
               @ [PortOpen False, Log Error ''Error while reopening port: %s'' [], Sleep 1]\<rparr>"
  have alive1: "alive_for 1 s"
    using Suc.prems(2) by (simp add: alive_for_def split: option.splits)
  have step: "reopenPort s = reopenPort ?t"
    using Suc.prems(1) by (intro reopenPort_retry alive1) simp
  have "open_results ?t = replicate n False @ True # rest"
    by simp
  moreover have "alive_for n ?t"
    using Suc.prems(2) by (auto simp: alive_for_def spend_def split: option.splits)
  ultimately have "reopenPort ?t =
     Some ((spend n ?t)\<lparr>port_open := True, open_results := rest,
                       events := events ?t @ reconnect_trace (port_open ?t) n\<rparr>)"
    by (rule Suc.IH)
  then show ?case
    unfolding step
    by (cases "shutdown s") (simp_all add: spend_def)
qed

lemma reopenPort_gives_up:
  "reopenPort s = Some s' \<Longrightarrow> \<not> port_open s' \<Longrightarrow> shutdown s' = Some 0"
proof (induction "open_results s" arbitrary: s)
  case Nil
  then show ?case
    by (simp add: reopenPort_no_script)
next
  case (Cons r rs)
  note script = Cons.hyps(2) [symmetric]
  show ?case
  proof (cases r)
    case True
    with script Cons.prems show ?thesis
      by (auto simp: reopenPort_opened)
  next
    case False
    show ?thesis
    proof (cases "shutdown s = Some 0")
      case True
      with script False Cons.prems show ?thesis
        by (auto simp: reopenPort_stopped)
    next
      case alive: False
      then have "alive_for 1 s"
        by (auto simp: alive_for_def split: option.splits)
      with script False have step: "reopenPort s =
        reopenPort ((spend 1 s)\<lparr>port_open := False, open_results := rs,
             events := events s @
               Log Warn ''Attempting to reopen port'' [] # (if port_open s then [PortClose] else [])
               @ [PortOpen False, Log Error ''Error while reopening port: %s'' [], Sleep 1]\<rparr>)"
        by (simp add: reopenPort_retry)
      show ?thesis
        by (rule Cons.hyps(1) [OF _ Cons.prems(1) [unfolded step] Cons.prems(2)]) simp
    qed
  qed
qed


lemma reconnect_trace_counts:
  "count_list (reconnect_trace was_open n) (PortOpen False) = n \<and>
   count_list (reconnect_trace was_open n) (PortOpen True) = 1 \<and>
   count_list (reconnect_trace was_open n) (Sleep 1) = n"
  by (induction n arbitrary: was_open) auto

text \<open>
  C6. Reconnection: when the coming opens fail \<open>n\<close> times and then succeed, and the process
  is not told to stop meanwhile, \<^verbatim>\<open>reopenPort\<close> returns, and only after the success: the
  port is open, open has been invoked \<open>n + 1\<close> times (\<open>n\<close> failures, then the success), and
  each failure was followed by a sleep of one second before the next attempt. Whenever
  \<^verbatim>\<open>reopenPort\<close> returns with the port not open, the process has signalled shutdown.
\<close>

theorem reopenPort_policy:
  "(open_results s = replicate n False @ True # rest \<and> alive_for n s \<longrightarrow>
      reopenPort s =
        Some ((spend n s)\<lparr>port_open := True, open_results := rest,
                          events := events s @ reconnect_trace (port_open s) n\<rparr>) \<and>
      count_list (reconnect_trace (port_open s) n) (PortOpen False) = n \<and>
      count_list (reconnect_trace (port_open s) n) (PortOpen True) = 1 \<and>
      count_list (reconnect_trace (port_open s) n) (Sleep 1) = n) \<and>
   (reopenPort s = Some s' \<and> \<not> port_open s' \<longrightarrow> shutdown s' = Some 0)"
  using reopenPort_success [of s n rest] reopenPort_gives_up [of s s']
        reconnect_trace_counts [of "port_open s" n]
  by blast

theorem reopenPort_policy_witness:
  "reopenPort (boot\<lparr>open_results := [False, False, True]\<rparr>) =
     Some (boot\<lparr>events :=
        [Log Warn ''Attempting to reopen port'' [], PortClose, PortOpen False,
         Log Error ''Error while reopening port: %s'' [], Sleep 1,
         Log Warn ''Attempting to reopen port'' [], PortOpen False,
         Log Error ''Error while reopening port: %s'' [], Sleep 1,
         Log Warn ''Attempting to reopen port'' [], PortOpen True,
         Log Info ''Successfully reopened port'' []]\<rparr>) \<and>
   reopenPort (boot\<lparr>open_results := [False, True], shutdown := Some 0\<rparr>) =
     Some (boot\<lparr>port_open := False, open_results := [True], shutdown := Some 0,
        events := [Log Warn ''Attempting to reopen port'' [], PortClose, PortOpen False,
         Log Error ''Error while reopening port: %s'' []]\<rparr>) \<and>
   shutdown (boot\<lparr>port_open := False, open_results := [True], shutdown := Some 0,
        events := [Log Warn ''Attempting to reopen port'' [], PortClose, PortOpen False,
         Log Error ''Error while reopening port: %s'' []]\<rparr>) = Some 0"
proof -
  have stop: "reopenPort (boot\<lparr>open_results := [False, True], shutdown := Some 0\<rparr>) =
     Some (boot\<lparr>port_open := False, open_results := [True], shutdown := Some 0,
        events := [Log Warn ''Attempting to reopen port'' [], PortClose, PortOpen False,
         Log Error ''Error while reopening port: %s'' []]\<rparr>)"
    by (subst reopenPort.simps) (simp add: Let_def emit_def ok_def boot_def)
  show ?thesis
    using reopenPort_policy [of "boot\<lparr>open_results := [False, False, True]\<rparr>" 2 "[]"]
          reopenPort_policy [of "boot\<lparr>open_results := [False, True], shutdown := Some 0\<rparr>" 0 "[]"
            "boot\<lparr>port_open := False, open_results := [True], shutdown := Some 0,
              events := [Log Warn ''Attempting to reopen port'' [], PortClose, PortOpen False,
                Log Error ''Error while reopening port: %s'' []]\<rparr>"]
          stop
    by (simp add: boot_def alive_for_def spend_def eval_nat_numeral)
qed

subsection \<open>The send path\<close>

lemma scenario_image:
  "toVector \<lparr>target_found = msg_target_found scenario_msg,
             target_color = (present_color (boot\<lparr>present_color := 0\<rparr>) = 0),
             task_mode = 0,
             pos_x = scenario_narrow (position_x scenario_msg),
             pos_y = scenario_narrow (position_y scenario_msg),
             pos_z = scenario_narrow (position_z scenario_msg),
             vel_x = scenario_narrow (velocity_x scenario_msg),
             vel_y = scenario_narrow (velocity_y scenario_msg),
             vel_z = scenario_narrow (velocity_z scenario_msg),
             tx_checksum = 0\<rparr> =
     [1, 1, 0, 0, 0, 0x80, 0x3F, 0, 0, 0, 0x40, 0, 0, 0x40, 0x40,
      0, 0, 0, 0, 0, 0, 0, 0, 0, 0, 0, 0, 0, 0]"
  by (simp add: toVector_def bool_byte_def scenario_msg_def scenario_narrow_def boot_def
        f32_bytes_def u16_bytes_def)

lemma scenario_checksum:
  "compute ccitt [1, 1, 0, 0, 0, 0x80, 0x3F, 0, 0, 0, 0x40, 0, 0, 0x40, 0x40,
                  0, 0, 0, 0, 0, 0, 0, 0, 0, 0, 0, 0] = 0xC96A"
  by (simp add: ccitt_eval)

lemma scenario_frame:
  "send_frame ccitt scenario_narrow scenario_msg (boot\<lparr>present_color := 0\<rparr>) =
     Inr [1, 1, 0, 0, 0, 0x80, 0x3F, 0, 0, 0, 0x40, 0, 0, 0x40, 0x40,
          0, 0, 0, 0, 0, 0, 0, 0, 0, 0, 0, 0, 0x6A, 0xC9]"
  unfolding send_frame_def Let_def scenario_image
  by (simp add: Append_CRC16_Check_Sum_def scenario_checksum u16_bytes_def)

text \<open>
  C2. Send-frame encoding: for every outbound command, whatever the cached colour, the
  frame built by \<^verbatim>\<open>sendData\<close> and handed to the port is exactly 29 bytes, with the fields
  packed little-endian in declared order: \<open>target_found\<close> at offset 0, \<open>target_color\<close> at 1,
  \<open>task_mode = 0\<close> at 2, \<open>x y z\<close> at 3, \<open>vx vy vz\<close> at 15; the \<open>target_color\<close> byte is true
  exactly when the cached present colour is 0; and the final two bytes are the checksum
  computed over the first 27 bytes.
\<close>

theorem send_frame_encoding:
  "\<exists>data. send_frame c narrow msg s = Inr data \<and>
     sendData c narrow msg True s =
       Some (Returns, emit PublishLatency (emit (PortSend data True) s)) \<and>
     length data = 29 \<and>
     data ! 0 = bool_byte (msg_target_found msg) \<and>
     data ! 1 = bool_byte (present_color s = 0) \<and>
     (data ! 1 = 1) = (present_color s = 0) \<and>
     data ! 2 = 0 \<and>
     take 12 (drop 3 data) =
       f32_bytes (narrow (position_x msg)) @ f32_bytes (narrow (position_y msg))
       @ f32_bytes (narrow (position_z msg)) \<and>
     take 12 (drop 15 data) =
       f32_bytes (narrow (velocity_x msg)) @ f32_bytes (narrow (velocity_y msg))
       @ f32_bytes (narrow (velocity_z msg)) \<and>
     drop 27 data = u16_bytes (compute c (take 27 data))"
  by (simp add: send_frame_def sendData_def Append_CRC16_Check_Sum_def toVector_def
        bool_byte_def)

theorem send_frame_encoding_witness:
  "send_frame ccitt scenario_narrow scenario_msg (boot\<lparr>present_color := 0\<rparr>) =
     Inr [1, 1, 0, 0, 0, 0x80, 0x3F, 0, 0, 0, 0x40, 0, 0, 0x40, 0x40,
          0, 0, 0, 0, 0, 0, 0, 0, 0, 0, 0, 0, 0x6A, 0xC9] \<and>
   u16_bytes (compute ccitt [1, 1, 0, 0, 0, 0x80, 0x3F, 0, 0, 0, 0x40, 0, 0, 0x40, 0x40,
          0, 0, 0, 0, 0, 0, 0, 0, 0, 0, 0, 0]) = [0x6A, 0xC9]"
proof -
  from send_frame_encoding [of ccitt scenario_narrow scenario_msg "boot\<lparr>present_color := 0\<rparr>"]
  obtain data where
    "send_frame ccitt scenario_narrow scenario_msg (boot\<lparr>present_color := 0\<rparr>) = Inr data"
    "drop 27 data = u16_bytes (compute ccitt (take 27 data))"
    by blast
  with scenario_frame show ?thesis
    by simp
qed

text \<open>
  The reconnection writes nothing to the port, and the frame of a command does not depend
  on the collaborators' scripts.
\<close>

lemma reopenPort_sends:
  "reopenPort s = Some s' \<Longrightarrow> filter is_send (events s') = filter is_send (events s)"
proof (induction "open_results s" arbitrary: s)
  case Nil
  then show ?case
    by (simp add: reopenPort_no_script)
next
  case (Cons r rs)
  note script = Cons.hyps(2) [symmetric]
  show ?case
  proof (cases r)
    case True
    with script Cons.prems show ?thesis
      by (auto simp: reopenPort_opened)
  next
    case False
    show ?thesis
    proof (cases "shutdown s = Some 0")
      case True
      with script False Cons.prems show ?thesis
        by (auto simp: reopenPort_stopped)
    next
      case alive: False
      let ?t = "(spend 1 s)\<lparr>port_open := False, open_results := rs,
             events := events s @
               Log Warn ''Attempting to reopen port'' [] # (if port_open s then [PortClose] else [])
               @ [PortOpen False, Log Error ''Error while reopening port: %s'' [], Sleep 1]\<rparr>"
      from alive have "alive_for 1 s"
        by (auto simp: alive_for_def split: option.splits)
      with script False have step: "reopenPort s = reopenPort ?t"
        by (simp add: reopenPort_retry)
      have "filter is_send (events s') = filter is_send (events ?t)"
        by (rule Cons.hyps(1) [OF _ Cons.prems(1) [unfolded step]]) simp
      then show ?thesis
        by simp
    qed
  qed
qed

lemma send_frame_total:
  "send_frame c narrow msg s =
     Inr (take 27 (toVector \<lparr>target_found = msg_target_found msg,
                    target_color = (present_color s = 0),
                    task_mode = 0,
                    pos_x = narrow (position_x msg),
                    pos_y = narrow (position_y msg),
                    pos_z = narrow (position_z msg),
                    vel_x = narrow (velocity_x msg),
                    vel_y = narrow (velocity_y msg),
                    vel_z = narrow (velocity_z msg),
                    tx_checksum = 0\<rparr>) @ u16_bytes (compute c (take 27 (toVector \<lparr>target_found = msg_target_found msg,
                    target_color = (present_color s = 0),
                    task_mode = 0,
                    pos_x = narrow (position_x msg),
                    pos_y = narrow (position_y msg),
                    pos_z = narrow (position_z msg),
                    vel_x = narrow (velocity_x msg),
                    vel_y = narrow (velocity_y msg),
                    vel_z = narrow (velocity_z msg),
                    tx_checksum = 0\<rparr>))))"
  by (simp add: send_frame_def Append_CRC16_Check_Sum_def toVector_def)

lemma scenario_frame_reopen:
  "send_frame ccitt scenario_narrow scenario_msg (boot\<lparr>present_color := 0, open_results := [True]\<rparr>) =
     Inr [1, 1, 0, 0, 0, 0x80, 0x3F, 0, 0, 0, 0x40, 0, 0, 0x40, 0x40,
          0, 0, 0, 0, 0, 0, 0, 0, 0, 0, 0, 0, 0x6A, 0xC9]"
  using scenario_frame by (simp add: send_frame_def)

lemma scenario_write_failure:
  "sendData ccitt scenario_narrow scenario_msg False (boot\<lparr>present_color := 0, open_results := [True]\<rparr>) =
     Some (Returns, boot\<lparr>present_color := 0, events :=
       [PortSend [1, 1, 0, 0, 0, 0x80, 0x3F, 0, 0, 0, 0x40, 0, 0, 0x40, 0x40,
                  0, 0, 0, 0, 0, 0, 0, 0, 0, 0, 0, 0, 0x6A, 0xC9] False,
        Log Error ''Error while sending data: %s'' [],
        Log Warn ''Attempting to reopen port'' [], PortClose, PortOpen True,
        Log Info ''Successfully reopened port'' []]\<rparr>)"
  unfolding sendData_def Let_def scenario_frame_reopen
  by (subst reopenPort.simps) (simp add: Let_def emit_def boot_def)

text \<open>
  C7, as claimed: when the write of a command raises an I/O error, the send operation
  reports a \<open>SendFailed\<close> error to its caller. It does not: in the scenario, with a write
  that fails and a reopen that succeeds, \<^verbatim>\<open>sendData\<close> returns normally.
\<close>

theorem sendData_reports_no_error:
  "map_option fst (sendData ccitt scenario_narrow scenario_msg False
     (boot\<lparr>present_color := 0, open_results := [True]\<rparr>)) = Some Returns \<and>
   map_option fst (sendData ccitt scenario_narrow scenario_msg False
     (boot\<lparr>present_color := 0, open_results := [True]\<rparr>)) \<noteq> Some (Throws SendFailed)"
  by (simp add: scenario_write_failure)


text \<open>
  C7, amended: for every outbound command whose write raises an I/O error, \<^verbatim>\<open>sendData\<close>
  logs the error and runs the reconnection; whenever that returns, \<^verbatim>\<open>sendData\<close> returns
  normally to its caller, with no error reported, and the command has been written to the
  port exactly once, by the failed attempt: it is not retried.
\<close>

theorem sendData_write_failure:
  "\<exists>data. send_frame c narrow msg s = Inr data \<and>
     sendData c narrow msg False s =
       map_option (Pair Returns)
         (reopenPort (emit (Log Error ''Error while sending data: %s'' [])
                        (emit (PortSend data False) s))) \<and>
     (\<forall>r s'. sendData c narrow msg False s = Some (r, s') \<longrightarrow>
        r = Returns \<and>
        filter is_send (events s') = filter is_send (events s) @ [PortSend data False])"
proof -
  obtain data where frame: "send_frame c narrow msg s = Inr data"
    using send_frame_total by blast
  have run: "sendData c narrow msg False s =
       map_option (Pair Returns)
         (reopenPort (emit (Log Error ''Error while sending data: %s'' [])
                        (emit (PortSend data False) s)))"
    by (simp add: sendData_def frame)
  have "r = Returns \<and>
        filter is_send (events s') = filter is_send (events s) @ [PortSend data False]"
    if "sendData c narrow msg False s = Some (r, s')" for r s'
    using that reopenPort_sends [of "emit (Log Error ''Error while sending data: %s'' [])
                        (emit (PortSend data False) s)" s']
    by (auto simp: run emit_def)
  with frame run show ?thesis
    by blast
qed


theorem sendData_write_failure_witness:
  "sendData ccitt scenario_narrow scenario_msg False
     (boot\<lparr>present_color := 0, open_results := [True]\<rparr>) =
     Some (Returns, boot\<lparr>present_color := 0, events :=
       [PortSend [1, 1, 0, 0, 0, 0x80, 0x3F, 0, 0, 0, 0x40, 0, 0, 0x40, 0x40,
                  0, 0, 0, 0, 0, 0, 0, 0, 0, 0, 0, 0, 0x6A, 0xC9] False,
        Log Error ''Error while sending data: %s'' [],
        Log Warn ''Attempting to reopen port'' [], PortClose, PortOpen True,
        Log Info ''Successfully reopened port'' []]\<rparr>) \<and>
   filter is_send
     [PortSend [1, 1, 0, 0, 0, 0x80, 0x3F, 0, 0, 0, 0x40, 0, 0, 0x40, 0x40,
                  0, 0, 0, 0, 0, 0, 0, 0, 0, 0, 0, 0, 0x6A, 0xC9] False,
        Log Error ''Error while sending data: %s'' [],
        Log Warn ''Attempting to reopen port'' [], PortClose, PortOpen True,
        Log Info ''Successfully reopened port'' []] =
     [PortSend [1, 1, 0, 0, 0, 0x80, 0x3F, 0, 0, 0, 0x40, 0, 0, 0x40, 0x40,
                  0, 0, 0, 0, 0, 0, 0, 0, 0, 0, 0, 0, 0x6A, 0xC9] False]"
proof -
  from sendData_write_failure
         [of ccitt scenario_narrow scenario_msg "boot\<lparr>present_color := 0, open_results := [True]\<rparr>"]
  obtain data where
    "send_frame ccitt scenario_narrow scenario_msg
       (boot\<lparr>present_color := 0, open_results := [True]\<rparr>) = Inr data"
    "\<forall>r s'. sendData ccitt scenario_narrow scenario_msg False
             (boot\<lparr>present_color := 0, open_results := [True]\<rparr>) = Some (r, s') \<longrightarrow>
        r = Returns \<and>
        filter is_send (events s') =
          filter is_send (events (boot\<lparr>present_color := 0, open_results := [True]\<rparr>))
          @ [PortSend data False]"
    by blast
  with scenario_frame_reopen scenario_write_failure show ?thesis
    by (simp add: boot_def)
qed


subsection \<open>Colour change\<close>

text \<open>
  C9. Fail-open colour state: whenever a colour-change request is not granted (the
  parameter service is not ready, the acknowledgement has not arrived when the flag is
  tested, or the authority rejects the value), the cached present colour is left as it was
  and the failure is logged, as the one error entry of the events added (the branch for a
  service that is not ready also sleeps one second). In every case one call makes at most
  one request to the authority.
\<close>

theorem requestforChangeColor_fail_open:
  "(\<not> granted s \<longrightarrow>
      present_color (requestforChangeColor color s) = present_color s \<and>
      events (requestforChangeColor color s) =
        events s @
        (if fst (service_is_ready s)
         then [SetParameters ''detect_color'' (if color = 0 then 1 else 0),
               Log Error ''Failed to set color'' []]
         else [Log Error ''remote parameter server is not ready'' [], Sleep 1])) \<and>
   length (filter is_request (events (requestforChangeColor color s)))
     \<le> length (filter is_request (events s)) + 1"
  by (auto simp: requestforChangeColor_def granted_def service_is_ready_def
        set_parameters_def emit_def Let_def split: list.splits)

theorem requestforChangeColor_fail_open_witness:
  "\<not> granted (boot\<lparr>ready_results := [True], set_results := [Some False]\<rparr>) \<and>
   requestforChangeColor 1 (boot\<lparr>ready_results := [True], set_results := [Some False]\<rparr>) =
     boot\<lparr>events := [SetParameters ''detect_color'' 0, Log Error ''Failed to set color'' []]\<rparr> \<and>
   \<not> granted (boot\<lparr>ready_results := [True], set_results := [None]\<rparr>) \<and>
   requestforChangeColor 0 (boot\<lparr>ready_results := [True], set_results := [None]\<rparr>) =
     boot\<lparr>events := [SetParameters ''detect_color'' 1, Log Error ''Failed to set color'' []]\<rparr> \<and>
   \<not> granted (boot\<lparr>ready_results := [False]\<rparr>) \<and>
   requestforChangeColor 1 (boot\<lparr>ready_results := [False]\<rparr>) =
     boot\<lparr>events := [Log Error ''remote parameter server is not ready'' [], Sleep 1]\<rparr>"
  using requestforChangeColor_fail_open
          [of "boot\<lparr>ready_results := [True], set_results := [Some False]\<rparr>" 1]
        requestforChangeColor_fail_open
          [of "boot\<lparr>ready_results := [True], set_results := [None]\<rparr>" 0]
        requestforChangeColor_fail_open [of "boot\<lparr>ready_results := [False]\<rparr>" 1]
  by (simp add: requestforChangeColor_def granted_def service_is_ready_def
        set_parameters_def emit_def Let_def boot_def)

subsection \<open>The receive loop\<close>

lemma ok_alive: "alive_for (Suc n) s \<Longrightarrow> ok s = (True, spend 1 s)"
proof (cases "shutdown s")
  case None
  then show ?thesis
    by (simp add: ok_def spend_def shutdown_same)
next
  case (Some k)
  assume "alive_for (Suc n) s"
  with Some obtain j where "k = Suc j"
    by (cases k) (auto simp: alive_for_def)
  with Some show ?thesis
    by (simp add: ok_def spend_def)
qed

lemma receive_bytes: "receive (length bs) (map Byte bs @ ch) = Got bs ch"
  by (induction bs) simp_all

lemma receive_one: "receive 1 (Byte b # ch) = Got [b] ch"
  using receive_bytes [of "[b]" ch] by simp

lemma receive_body_other:
  "b \<noteq> 0x5A \<Longrightarrow>
   receive_body c (Byte b # ch) s =
     Continue ch (emit (Log Warn ''Invalid header: %02X'' [uint b]) s)"
  by (simp add: receive_body_def receive_one)

lemma receive_body_frame:
  assumes "length body = 11"
  shows "receive_body c (Byte 0x5A # map Byte body @ ch) s =
     (case Verify_CRC16_Check_Sum c (0x5A # body) of
        Inl e \<Rightarrow> Thrown ch s
      | Inr crc_ok \<Rightarrow>
          if crc_ok then
            let s1 = emit (PublishJointState
                       [(''pitch_joint'', f32_of_bytes (body ! 1) (body ! 2) (body ! 3) (body ! 4)),
                        (''yaw_joint'', f32_of_bytes (body ! 5) (body ! 6) (body ! 7) (body ! 8))]) s
            in Continue ch
                 (if uint (body ! 0) \<noteq> present_color s
                  then requestforChangeColor (body ! 0) s1 else s1)
          else Continue ch (emit (Log Error ''CRC error!'' []) s))"
proof -
  have rest: "receive (sizeof_ReceivePacket - Suc 0) (map Byte body @ ch) = Got body ch"
    using receive_bytes [of body ch] assms by (simp add: sizeof_ReceivePacket_def)
  have len: "length (0x5A # body) = 12"
    using assms by simp
  let ?p = "\<lparr>header_byte = 0x5A, robot_color = body ! 0,
       pitch = f32_of_bytes (body ! Suc 0) (body ! 2) (body ! 3) (body ! 4),
       yaw = f32_of_bytes (body ! 5) (body ! 6) (body ! 7) (body ! 8),
       rx_checksum = u16_of_bytes (body ! 9) (body ! 10)\<rparr>"
  have dec: "fromVector (0x5A # body) = Inr ?p"
    using fromVector_exact [OF len] by simp
  have img: "ReceivePacket_image ?p = 0x5A # body"
    using image_fromVector [OF dec] .
  show ?thesis
  proof (cases "Verify_CRC16_Check_Sum c (0x5A # body)")
    case (Inl e)
    then show ?thesis
      by (simp add: receive_body_def receive_one rest dec img)
  next
    case (Inr crc_ok)
    then show ?thesis
      by (simp add: receive_body_def receive_one rest dec img Let_def emit_def)
  qed
qed

lemma receiveData_continue:
  "alive_for 1 s \<Longrightarrow> receive_body c ch (spend 1 s) = Continue ch' s' \<Longrightarrow>
   receiveData c ch s = receiveData c ch' s'"
  using ok_alive [of 0 s] by (subst receiveData.simps) simp

lemma receiveData_waiting:
  "alive_for 1 s \<Longrightarrow> receiveData c [] s = Waiting (spend 1 s)"
  using ok_alive [of 0 s] by (subst receiveData.simps) (simp add: receive_body_def)

lemma receiveData_junk:
  "\<forall>b \<in> set junk. b \<noteq> 0x5A \<Longrightarrow> alive_for (length junk) s \<Longrightarrow>
   receiveData c (map Byte junk @ ch) s =
     receiveData c ch
       ((spend (length junk) s)
          \<lparr>events := events s @ map (\<lambda>b. Log Warn ''Invalid header: %02X'' [uint b]) junk\<rparr>)"
proof (induction junk arbitrary: s)
  case Nil
  then show ?case
    by simp
next
  case (Cons b junk)
  let ?t = "emit (Log Warn ''Invalid header: %02X'' [uint b]) (spend 1 s)"
  have alive1: "alive_for 1 s"
    using Cons.prems(2) by (simp add: alive_for_def split: option.splits)
  have "receive_body c (Byte b # map Byte junk @ ch) (spend 1 s) = Continue (map Byte junk @ ch) ?t"
    using Cons.prems(1) by (simp add: receive_body_other)
  then have step: "receiveData c (map Byte (b # junk) @ ch) s = receiveData c (map Byte junk @ ch) ?t"
    using receiveData_continue [OF alive1] by simp
  have "alive_for (length junk) ?t"
    using Cons.prems(2) by (auto simp: alive_for_def spend_def emit_def split: option.splits)
  with Cons.prems(1) have "receiveData c (map Byte junk @ ch) ?t =
     receiveData c ch
       ((spend (length junk) ?t)
          \<lparr>events := events ?t @ map (\<lambda>b. Log Warn ''Invalid header: %02X'' [uint b]) junk\<rparr>)"
    by (intro Cons.IH) simp_all
  moreover have "(spend (length junk) ?t)
          \<lparr>events := events ?t @ map (\<lambda>b. Log Warn ''Invalid header: %02X'' [uint b]) junk\<rparr> =
     (spend (length (b # junk)) s)
          \<lparr>events := events s @ map (\<lambda>b. Log Warn ''Invalid header: %02X'' [uint b]) (b # junk)\<rparr>"
    by (cases "shutdown s") (simp_all add: spend_def emit_def)
  ultimately show ?case
    unfolding step by simp
qed


text \<open>
  The frame of the specification's scenario, \<^verbatim>\<open>5A 00 3F800000 40000000\<close> with its
  checksum under \<open>ccitt\<close>, and the same frame with its last byte changed.
\<close>

lemma scenario_rx_verifies:
  "Verify_CRC16_Check_Sum ccitt [0x5A, 0, 0, 0, 0x80, 0x3F, 0, 0, 0, 0x40, 0x42, 0xD7] = Inr True"
  by (simp add: Verify_CRC16_Check_Sum_def ccitt_eval)

lemma scenario_rx_corrupted:
  "Verify_CRC16_Check_Sum ccitt [0x5A, 0, 0, 0, 0x80, 0x3F, 0, 0, 0, 0x40, 0x42, 0xD6] = Inr False"
  by (simp add: Verify_CRC16_Check_Sum_def ccitt_eval)

lemma scenario_rx_decoded:
  "fromVector [0x5A, 0, 0, 0, 0x80, 0x3F, 0, 0, 0, 0x40, 0x42, 0xD7] =
     Inr \<lparr>header_byte = 0x5A, robot_color = 0, pitch = 0x3F800000, yaw = 0x40000000,
          rx_checksum = 0xD742\<rparr>"
  by (simp add: fromVector_exact f32_of_bytes_def u16_of_bytes_def)

lemma scenario_rx_run:
  assumes "shutdown t = None" and "present_color t = 0"
  shows "receiveData ccitt (map Byte [0x5A, 0, 0, 0, 0x80, 0x3F, 0, 0, 0, 0x40, 0x42, 0xD7]) t =
     Waiting (emit (PublishJointState
                [(''pitch_joint'', 0x3F800000), (''yaw_joint'', 0x40000000)]) t)"
proof -
  let ?t' = "emit (PublishJointState
                [(''pitch_joint'', 0x3F800000), (''yaw_joint'', 0x40000000)]) t"
  have alive: "alive_for 1 t" "alive_for 1 ?t'"
    using assms(1) by (simp_all add: alive_for_def emit_def)
  have same: "spend 1 t = t" "spend 1 ?t' = ?t'"
    using assms(1) by (simp_all add: spend_def emit_def shutdown_same)
  have "receive_body ccitt (Byte 0x5A # map Byte [0, 0, 0, 0x80, 0x3F, 0, 0, 0, 0x40, 0x42, 0xD7] @ []) t =
          Continue [] ?t'"
    using assms(2) scenario_rx_verifies
      receive_body_frame [of "[0, 0, 0, 0x80, 0x3F, 0, 0, 0, 0x40, 0x42, 0xD7]" ccitt "[]" t]
    by (simp add: f32_of_bytes_def)
  then have "receiveData ccitt (map Byte [0x5A, 0, 0, 0, 0x80, 0x3F, 0, 0, 0, 0x40, 0x42, 0xD7]) t =
          receiveData ccitt [] ?t'"
    using receiveData_continue [OF alive(1), of ccitt _ "[]" ?t'] same(1) by simp
  also have "\<dots> = Waiting ?t'"
    using receiveData_waiting [OF alive(2), of ccitt] same(2) by simp
  finally show ?thesis .
qed

lemma receiveData_junk_only:
  "\<forall>b \<in> set junk. b \<noteq> 0x5A \<Longrightarrow> alive_for (Suc (length junk)) s \<Longrightarrow>
   receiveData c (map Byte junk) s =
     Waiting ((spend (Suc (length junk)) s)
        \<lparr>events := events s @ map (\<lambda>b. Log Warn ''Invalid header: %02X'' [uint b]) junk\<rparr>)"
proof -
  assume junk: "\<forall>b \<in> set junk. b \<noteq> 0x5A" and alive: "alive_for (Suc (length junk)) s"
  let ?t = "(spend (length junk) s)
        \<lparr>events := events s @ map (\<lambda>b. Log Warn ''Invalid header: %02X'' [uint b]) junk\<rparr>"
  have "alive_for (length junk) s"
    using alive by (auto simp: alive_for_def split: option.splits)
  with junk have "receiveData c (map Byte junk @ []) s = receiveData c [] ?t"
    by (rule receiveData_junk)
  moreover have "alive_for 1 ?t"
    using alive by (auto simp: alive_for_def spend_def split: option.splits)
  then have "receiveData c [] ?t = Waiting (spend 1 ?t)"
    by (rule receiveData_waiting)
  moreover have "spend 1 ?t = (spend (Suc (length junk)) s)
        \<lparr>events := events s @ map (\<lambda>b. Log Warn ''Invalid header: %02X'' [uint b]) junk\<rparr>"
    by (cases "shutdown s") (simp_all add: spend_def)
  ultimately show ?thesis
    by simp
qed

text \<open>
  C3. Resynchronisation: a header byte other than the sentinel \<open>0x5A\<close> makes the body of
  the loop, in every state and whatever bytes follow, log one warning, discard exactly that
  byte and complete: the state changes by the warning alone, so nothing is decoded (a
  decoded frame leaves a publication or a checksum error) and nothing is thrown. Hence,
  while the process is alive, the loop takes a run of such bytes one at a time as header
  candidates and goes on with the next header byte after them; when nothing follows, it
  is left waiting for the next header byte with exactly one warning per byte logged.
\<close>

theorem receiveData_resynchronizes:
  "(b \<noteq> 0x5A \<longrightarrow>
      receive_body c (Byte b # rest) t =
        Continue rest (emit (Log Warn ''Invalid header: %02X'' [uint b]) t)) \<and>
   ((\<forall>b \<in> set junk. b \<noteq> 0x5A) \<and> alive_for (length junk) s \<longrightarrow>
      receiveData c (map Byte junk @ ch) s =
        receiveData c ch
          ((spend (length junk) s)
             \<lparr>events := events s @ map (\<lambda>b. Log Warn ''Invalid header: %02X'' [uint b]) junk\<rparr>)) \<and>
   ((\<forall>b \<in> set junk. b \<noteq> 0x5A) \<and> alive_for (Suc (length junk)) s \<longrightarrow>
      receiveData c (map Byte junk) s =
        Waiting ((spend (Suc (length junk)) s)
           \<lparr>events := events s @ map (\<lambda>b. Log Warn ''Invalid header: %02X'' [uint b]) junk\<rparr>))"
  using receive_body_other [of b c rest t] receiveData_junk [of junk s c ch]
        receiveData_junk_only [of junk s c]
  by blast

theorem receiveData_resynchronizes_witness:
  "receive_body ccitt
     (map Byte [0x00, 0xA5, 0x5A, 0, 0, 0, 0x80, 0x3F, 0, 0, 0, 0x40, 0x42, 0xD7]) boot =
     Continue (map Byte [0xA5, 0x5A, 0, 0, 0, 0x80, 0x3F, 0, 0, 0, 0x40, 0x42, 0xD7])
       (boot\<lparr>events := [Log Warn ''Invalid header: %02X'' [0]]\<rparr>) \<and>
   receiveData ccitt
     (map Byte [0x00, 0xA5, 0x5A, 0, 0, 0, 0x80, 0x3F, 0, 0, 0, 0x40, 0x42, 0xD7])
     (boot\<lparr>present_color := 0\<rparr>) =
     Waiting (boot\<lparr>present_color := 0,
                events := [Log Warn ''Invalid header: %02X'' [0],
                           Log Warn ''Invalid header: %02X'' [165],
                           PublishJointState
                             [(''pitch_joint'', 0x3F800000), (''yaw_joint'', 0x40000000)]]\<rparr>) \<and>
   receiveData ccitt (map Byte [0x00, 0xA5]) boot =
     Waiting (boot\<lparr>events := [Log Warn ''Invalid header: %02X'' [0],
                                Log Warn ''Invalid header: %02X'' [165]]\<rparr>)"
proof -
  note inst = receiveData_resynchronizes
          [where b = 0 and c = ccitt and t = boot
             and rest = "map Byte [0xA5, 0x5A, 0, 0, 0, 0x80, 0x3F, 0, 0, 0, 0x40, 0x42, 0xD7]"
             and junk = "[0x00, 0xA5]" and s = "boot\<lparr>present_color := 0\<rparr>"
             and ch = "map Byte [0x5A, 0, 0, 0, 0x80, 0x3F, 0, 0, 0, 0x40, 0x42, 0xD7]"]
  note inst' = receiveData_resynchronizes
          [where b = 0 and c = ccitt and t = boot and rest = "[]"
             and junk = "[0x00, 0xA5]" and s = boot and ch = "[]"]
  have one: "receive_body ccitt
     (map Byte [0x00, 0xA5, 0x5A, 0, 0, 0, 0x80, 0x3F, 0, 0, 0, 0x40, 0x42, 0xD7]) boot =
     Continue (map Byte [0xA5, 0x5A, 0, 0, 0, 0x80, 0x3F, 0, 0, 0, 0x40, 0x42, 0xD7])
       (boot\<lparr>events := [Log Warn ''Invalid header: %02X'' [0]]\<rparr>)"
    using inst [THEN conjunct1] by (simp add: boot_def emit_def)
  have "receiveData ccitt
     (map Byte [0x00, 0xA5, 0x5A, 0, 0, 0, 0x80, 0x3F, 0, 0, 0, 0x40, 0x42, 0xD7])
     (boot\<lparr>present_color := 0\<rparr>) =
     receiveData ccitt (map Byte [0x5A, 0, 0, 0, 0x80, 0x3F, 0, 0, 0, 0x40, 0x42, 0xD7])
       (boot\<lparr>present_color := 0,
                  events := [Log Warn ''Invalid header: %02X'' [0],
                             Log Warn ''Invalid header: %02X'' [165]]\<rparr>)"
    using inst [THEN conjunct2, THEN conjunct1]
    by (simp add: alive_for_def spend_def boot_def)
  also have "\<dots> = Waiting (boot\<lparr>present_color := 0,
                events := [Log Warn ''Invalid header: %02X'' [0],
                           Log Warn ''Invalid header: %02X'' [165],
                           PublishJointState
                             [(''pitch_joint'', 0x3F800000), (''yaw_joint'', 0x40000000)]]\<rparr>)"
    using scenario_rx_run
          [of "boot\<lparr>present_color := 0,
                  events := [Log Warn ''Invalid header: %02X'' [0],
                             Log Warn ''Invalid header: %02X'' [165]]\<rparr>"]
    by (simp add: boot_def emit_def)
  finally have two: "receiveData ccitt
     (map Byte [0x00, 0xA5, 0x5A, 0, 0, 0, 0x80, 0x3F, 0, 0, 0, 0x40, 0x42, 0xD7])
     (boot\<lparr>present_color := 0\<rparr>) =
     Waiting (boot\<lparr>present_color := 0,
                events := [Log Warn ''Invalid header: %02X'' [0],
                           Log Warn ''Invalid header: %02X'' [165],
                           PublishJointState
                             [(''pitch_joint'', 0x3F800000), (''yaw_joint'', 0x40000000)]]\<rparr>)" .
  have three: "receiveData ccitt (map Byte [0x00, 0xA5]) boot =
     Waiting (boot\<lparr>events := [Log Warn ''Invalid header: %02X'' [0],
                                Log Warn ''Invalid header: %02X'' [165]]\<rparr>)"
    using inst' [THEN conjunct2, THEN conjunct2]
    by (simp add: alive_for_def spend_def boot_def)
  from one two three show ?thesis
    by blast
qed

text \<open>
  C4. Checksum failure: for every complete frame (the sentinel and 11 more bytes) whose
  CRC-16 verification fails, the body of the loop completes without throwing, the error is
  logged, nothing is published for the frame, and the loop goes on with the next header
  byte after the frame: the frame is not read again and the failure does not leave the
  loop.
\<close>

theorem receiveData_crc_error:
  "length body = 11 \<and> Verify_CRC16_Check_Sum c (0x5A # body) = Inr False \<and> alive_for 1 s \<longrightarrow>
   receive_body c (map Byte (0x5A # body) @ ch) (spend 1 s) =
     Continue ch (emit (Log Error ''CRC error!'' []) (spend 1 s)) \<and>
   receiveData c (map Byte (0x5A # body) @ ch) s =
     receiveData c ch (emit (Log Error ''CRC error!'' []) (spend 1 s))"
proof (intro impI, elim conjE)
  assume len: "length body = 11"
    and crc: "Verify_CRC16_Check_Sum c (0x5A # body) = Inr False"
    and alive: "alive_for 1 s"
  have body: "receive_body c (map Byte (0x5A # body) @ ch) (spend 1 s) =
     Continue ch (emit (Log Error ''CRC error!'' []) (spend 1 s))"
    by (simp add: receive_body_frame [OF len] crc)
  with receiveData_continue [OF alive body]
  show "receive_body c (map Byte (0x5A # body) @ ch) (spend 1 s) =
     Continue ch (emit (Log Error ''CRC error!'' []) (spend 1 s)) \<and>
   receiveData c (map Byte (0x5A # body) @ ch) s =
     receiveData c ch (emit (Log Error ''CRC error!'' []) (spend 1 s))"
    by simp
qed

theorem receiveData_crc_error_witness:
  "receiveData ccitt
     (map Byte [0x5A, 0, 0, 0, 0x80, 0x3F, 0, 0, 0, 0x40, 0x42, 0xD6]) boot =
     Waiting (boot\<lparr>events := [Log Error ''CRC error!'' []]\<rparr>)"
proof -
  have "alive_for 1 (boot\<lparr>events := [Log Error ''CRC error!'' []]\<rparr>)"
    by (simp add: alive_for_def boot_def)
  from receiveData_waiting [OF this, of ccitt]
  show ?thesis
    using receiveData_crc_error [of "[0, 0, 0, 0x80, 0x3F, 0, 0, 0, 0x40, 0x42, 0xD6]" ccitt boot "[]"]
          scenario_rx_corrupted
    by (simp add: alive_for_def spend_def boot_def emit_def)
qed

lemma requestforChangeColor_not_ready:
  "\<not> fst (service_is_ready s) \<Longrightarrow>
   requestforChangeColor color s =
     s\<lparr>ready_results := tl (ready_results s),
       events := events s @ [Log Error ''remote parameter server is not ready'' [], Sleep 1]\<rparr>"
  by (cases "ready_results s")
     (auto simp: requestforChangeColor_def service_is_ready_def emit_def
        intro!: driver.equality)

lemma requestforChangeColor_granted:
  "granted s \<Longrightarrow>
   requestforChangeColor color s =
     s\<lparr>present_color := uint color,
       ready_results := tl (ready_results s), set_results := tl (set_results s),
       events := events s @
         [SetParameters ''detect_color'' (if color = 0 then 1 else 0),
          Log Info ''Successfully set color: %d'' [uint color]]\<rparr>"
  by (cases "ready_results s"; cases "set_results s")
     (auto simp: requestforChangeColor_def service_is_ready_def set_parameters_def granted_def
        emit_def intro!: driver.equality)

lemma requestforChangeColor_refused:
  "fst (service_is_ready s) \<Longrightarrow> \<not> granted s \<Longrightarrow>
   requestforChangeColor color s =
     s\<lparr>ready_results := tl (ready_results s), set_results := tl (set_results s),
       events := events s @
         [SetParameters ''detect_color'' (if color = 0 then 1 else 0),
          Log Error ''Failed to set color'' []]\<rparr>"
  by (cases "ready_results s"; cases "set_results s")
     (auto simp: requestforChangeColor_def service_is_ready_def set_parameters_def granted_def
        emit_def intro!: driver.equality)

lemma granted_ready: "granted s \<Longrightarrow> fst (service_is_ready s)"
  by (auto simp: granted_def service_is_ready_def split: list.splits)

lemma receive_body_verified:
  assumes dec: "fromVector frame = Inr p"
    and hdr: "header_byte p = 0x5A"
    and crc: "Verify_CRC16_Check_Sum c frame = Inr True"
  shows "receive_body c (map Byte frame @ ch) s =
     Continue ch
       (let s1 = emit (PublishJointState
                   [(''pitch_joint'', pitch p), (''yaw_joint'', yaw p)]) s
        in if uint (robot_color p) \<noteq> present_color s
           then requestforChangeColor (robot_color p) s1 else s1)"
proof -
  have len: "length frame = 12"
    using dec by (simp add: fromVector_def sizeof_ReceivePacket_def split: if_splits)
  then obtain h body where frame: "frame = h # body" and body: "length body = 11"
    by (cases frame) auto
  from fromVector_exact [OF len] dec frame
  have p: "p = \<lparr>header_byte = h, robot_color = body ! 0,
       pitch = f32_of_bytes (body ! Suc 0) (body ! 2) (body ! 3) (body ! 4),
       yaw = f32_of_bytes (body ! 5) (body ! 6) (body ! 7) (body ! 8),
       rx_checksum = u16_of_bytes (body ! 9) (body ! 10)\<rparr>"
    by simp
  with hdr have h: "h = 0x5A"
    by simp
  show ?thesis
    using crc unfolding frame h
    by (simp add: receive_body_frame [OF body] p Let_def)
qed

lemma scenario_rx_step:
  "shutdown t = None \<Longrightarrow>
   receiveData ccitt (map Byte [0x5A, 0, 0, 0, 0x80, 0x3F, 0, 0, 0, 0x40, 0x42, 0xD7]) t =
     Waiting
       (let s1 = emit (PublishJointState
                   [(''pitch_joint'', 0x3F800000), (''yaw_joint'', 0x40000000)]) t
        in if 0 \<noteq> present_color t then requestforChangeColor 0 s1 else s1)"
proof -
  assume never: "shutdown t = None"
  let ?t' = "let s1 = emit (PublishJointState
                   [(''pitch_joint'', 0x3F800000), (''yaw_joint'', 0x40000000)]) t
        in if 0 \<noteq> present_color t then requestforChangeColor 0 s1 else s1"
  have keep: "shutdown ?t' = None"
    using never
    by (auto simp: Let_def emit_def requestforChangeColor_def service_is_ready_def
          set_parameters_def split: list.splits)
  have alive: "alive_for 1 t" "alive_for 1 ?t'"
    using never keep by (simp_all add: alive_for_def)
  have same: "spend 1 t = t" "spend 1 ?t' = ?t'"
    using never keep by (simp_all add: spend_def shutdown_same)
  have "receive_body ccitt
          (map Byte [0x5A, 0, 0, 0, 0x80, 0x3F, 0, 0, 0, 0x40, 0x42, 0xD7] @ []) t =
          Continue [] ?t'"
    using receive_body_verified [OF scenario_rx_decoded _ scenario_rx_verifies, of "[]" t]
    by (simp add: Let_def)
  then have "receiveData ccitt
          (map Byte [0x5A, 0, 0, 0, 0x80, 0x3F, 0, 0, 0, 0x40, 0x42, 0xD7]) t =
          receiveData ccitt [] ?t'"
    using receiveData_continue [OF alive(1), of ccitt _ "[]" ?t'] same(1) by simp
  also have "\<dots> = Waiting ?t'"
    using receiveData_waiting [OF alive(2), of ccitt] same(2) by simp
  finally show ?thesis .
qed

text \<open>
  C5, as claimed: on a verified frame whose robot colour differs from the cached present
  colour, the loop makes a colour-change request with the decoded colour. It does not: in
  the scenario the frame carries colour 0 and the node holds \<open>-1\<close>; with the parameter
  service ready the request sent carries 1, and with the service not ready no request is
  sent at all.
\<close>

theorem color_request_not_as_claimed:
  "receiveData ccitt (map Byte [0x5A, 0, 0, 0, 0x80, 0x3F, 0, 0, 0, 0x40, 0x42, 0xD7])
     (boot\<lparr>ready_results := [True], set_results := [Some True]\<rparr>) =
     Waiting (boot\<lparr>present_color := 0,
       events := [PublishJointState [(''pitch_joint'', 0x3F800000), (''yaw_joint'', 0x40000000)],
                  SetParameters ''detect_color'' 1,
                  Log Info ''Successfully set color: %d'' [0]]\<rparr>) \<and>
   receiveData ccitt (map Byte [0x5A, 0, 0, 0, 0x80, 0x3F, 0, 0, 0, 0x40, 0x42, 0xD7]) boot =
     Waiting (boot\<lparr>
       events := [PublishJointState [(''pitch_joint'', 0x3F800000), (''yaw_joint'', 0x40000000)],
                  Log Error ''remote parameter server is not ready'' [], Sleep 1]\<rparr>)"
  using scenario_rx_step [of "boot\<lparr>ready_results := [True], set_results := [Some True]\<rparr>"]
        scenario_rx_step [of boot]
  by (simp add: boot_def emit_def requestforChangeColor_def service_is_ready_def
        set_parameters_def Let_def)

text \<open>
  C5, amended: for every frame that decodes to a packet with the sentinel header and
  passes the checksum, the body of the loop publishes pitch and yaw and completes. When
  the packet's robot colour equals the cached present colour it does nothing more: no
  request is made. When it differs, \<^verbatim>\<open>requestforChangeColor\<close> is called with the decoded
  colour: if the parameter service is not ready, nothing is sent, an error is logged and
  the loop sleeps one second; if it is ready, one request for \<^verbatim>\<open>detect_color\<close> is sent,
  carrying 1 when the decoded colour is 0 and 0 otherwise, after which the present colour
  becomes the decoded colour if the request is granted, and a failure is logged if not.
  While the process is alive the loop then goes on with the next header byte.
\<close>

theorem receiveData_color_mismatch:
  "fromVector frame = Inr p \<and> header_byte p = 0x5A \<and>
   Verify_CRC16_Check_Sum c frame = Inr True \<longrightarrow>
   (let color = robot_color p;
        pub = PublishJointState [(''pitch_joint'', pitch p), (''yaw_joint'', yaw p)];
        sent = SetParameters ''detect_color'' (if color = 0 then 1 else 0);
        after = (\<lambda>t.
          if uint color = present_color t then t\<lparr>events := events t @ [pub]\<rparr>
          else if \<not> fst (service_is_ready t) then
            t\<lparr>ready_results := tl (ready_results t),
              events := events t @
                [pub, Log Error ''remote parameter server is not ready'' [], Sleep 1]\<rparr>
          else if granted t then
            t\<lparr>present_color := uint color,
              ready_results := tl (ready_results t), set_results := tl (set_results t),
              events := events t @
                [pub, sent, Log Info ''Successfully set color: %d'' [uint color]]\<rparr>
          else
            t\<lparr>ready_results := tl (ready_results t), set_results := tl (set_results t),
              events := events t @ [pub, sent, Log Error ''Failed to set color'' []]\<rparr>)
    in receive_body c (map Byte frame @ ch) s = Continue ch (after s) \<and>
       (alive_for 1 s \<longrightarrow>
          receiveData c (map Byte frame @ ch) s = receiveData c ch (after (spend 1 s))))"
proof (intro impI, elim conjE)
  assume dec: "fromVector frame = Inr p"
    and hdr: "header_byte p = 0x5A"
    and crc: "Verify_CRC16_Check_Sum c frame = Inr True"
  let ?pub = "PublishJointState [(''pitch_joint'', pitch p), (''yaw_joint'', yaw p)]"
  let ?sent = "SetParameters ''detect_color'' (if robot_color p = 0 then 1 else 0)"
  let ?after = "\<lambda>t.
          if uint (robot_color p) = present_color t then t\<lparr>events := events t @ [?pub]\<rparr>
          else if \<not> fst (service_is_ready t) then
            t\<lparr>ready_results := tl (ready_results t),
              events := events t @
                [?pub, Log Error ''remote parameter server is not ready'' [], Sleep 1]\<rparr>
          else if granted t then
            t\<lparr>present_color := uint (robot_color p),
              ready_results := tl (ready_results t), set_results := tl (set_results t),
              events := events t @
                [?pub, ?sent, Log Info ''Successfully set color: %d'' [uint (robot_color p)]]\<rparr>
          else
            t\<lparr>ready_results := tl (ready_results t), set_results := tl (set_results t),
              events := events t @ [?pub, ?sent, Log Error ''Failed to set color'' []]\<rparr>"
  have body: "receive_body c (map Byte frame @ ch) t = Continue ch (?after t)" for t
  proof -
    let ?t1 = "emit ?pub t"
    have scripts: "fst (service_is_ready ?t1) = fst (service_is_ready t)"
      "granted ?t1 = granted t"
      by (simp_all add: service_is_ready_def granted_def emit_def split: list.splits)
    consider (same) "uint (robot_color p) = present_color t"
      | (not_ready) "uint (robot_color p) \<noteq> present_color t" "\<not> fst (service_is_ready t)"
      | (granted) "uint (robot_color p) \<noteq> present_color t" "granted t"
      | (refused) "uint (robot_color p) \<noteq> present_color t" "fst (service_is_ready t)"
          "\<not> granted t"
      using granted_ready [of t] by blast
    then show ?thesis
    proof cases
      case same
      then show ?thesis
        by (simp add: receive_body_verified [OF dec hdr crc] Let_def emit_def)
    next
      case not_ready
      with scripts have "\<not> fst (service_is_ready ?t1)"
        by simp
      from requestforChangeColor_not_ready [OF this] not_ready show ?thesis
        by (simp add: receive_body_verified [OF dec hdr crc] Let_def emit_def)
    next
      case granted
      with scripts have "granted ?t1"
        by simp
      from requestforChangeColor_granted [OF this] granted granted_ready [of t] show ?thesis
        by (simp add: receive_body_verified [OF dec hdr crc] Let_def emit_def)
    next
      case refused
      with scripts have "fst (service_is_ready ?t1)" "\<not> granted ?t1"
        by simp_all
      from requestforChangeColor_refused [OF this] refused show ?thesis
        by (simp add: receive_body_verified [OF dec hdr crc] Let_def emit_def)
    qed
  qed
  have "receiveData c (map Byte frame @ ch) s = receiveData c ch (?after (spend 1 s))"
    if "alive_for 1 s"
    using receiveData_continue [OF that body [of "spend 1 s"]] .
  with body [of s]
  show "let color = robot_color p;
        pub = PublishJointState [(''pitch_joint'', pitch p), (''yaw_joint'', yaw p)];
        sent = SetParameters ''detect_color'' (if color = 0 then 1 else 0);
        after = (\<lambda>t.
          if uint color = present_color t then t\<lparr>events := events t @ [pub]\<rparr>
          else if \<not> fst (service_is_ready t) then
            t\<lparr>ready_results := tl (ready_results t),
              events := events t @
                [pub, Log Error ''remote parameter server is not ready'' [], Sleep 1]\<rparr>
          else if granted t then
            t\<lparr>present_color := uint color,
              ready_results := tl (ready_results t), set_results := tl (set_results t),
              events := events t @
                [pub, sent, Log Info ''Successfully set color: %d'' [uint color]]\<rparr>
          else
            t\<lparr>ready_results := tl (ready_results t), set_results := tl (set_results t),
              events := events t @ [pub, sent, Log Error ''Failed to set color'' []]\<rparr>)
    in receive_body c (map Byte frame @ ch) s = Continue ch (after s) \<and>
       (alive_for 1 s \<longrightarrow>
          receiveData c (map Byte frame @ ch) s = receiveData c ch (after (spend 1 s)))"
    unfolding Let_def by blast
qed


theorem receiveData_color_mismatch_witness:
  "receive_body ccitt (map Byte [0x5A, 0, 0, 0, 0x80, 0x3F, 0, 0, 0, 0x40, 0x42, 0xD7])
     (boot\<lparr>present_color := 0, ready_results := [True], set_results := [Some True]\<rparr>) =
     Continue []
       (boot\<lparr>present_color := 0, ready_results := [True], set_results := [Some True],
          events := [PublishJointState
                       [(''pitch_joint'', 0x3F800000), (''yaw_joint'', 0x40000000)]]\<rparr>) \<and>
   receive_body ccitt (map Byte [0x5A, 0, 0, 0, 0x80, 0x3F, 0, 0, 0, 0x40, 0x42, 0xD7])
     (boot\<lparr>ready_results := [True], set_results := [Some False]\<rparr>) =
     Continue []
       (boot\<lparr>events := [PublishJointState
                             [(''pitch_joint'', 0x3F800000), (''yaw_joint'', 0x40000000)],
                           SetParameters ''detect_color'' 1,
                           Log Error ''Failed to set color'' []]\<rparr>) \<and>
   receiveData ccitt (map Byte [0x5A, 0, 0, 0, 0x80, 0x3F, 0, 0, 0, 0x40, 0x42, 0xD7])
     (boot\<lparr>ready_results := [True], set_results := [Some False]\<rparr>) =
     Waiting
       (boot\<lparr>events := [PublishJointState
                             [(''pitch_joint'', 0x3F800000), (''yaw_joint'', 0x40000000)],
                           SetParameters ''detect_color'' 1,
                           Log Error ''Failed to set color'' []]\<rparr>)"
proof -
  let ?frame = "[0x5A, 0, 0, 0, 0x80, 0x3F, 0, 0, 0, 0x40, 0x42, 0xD7] :: u8 list"
  let ?p = "\<lparr>header_byte = 0x5A, robot_color = 0, pitch = 0x3F800000, yaw = 0x40000000,
             rx_checksum = 0xD742\<rparr>"
  have hyp: "fromVector ?frame = Inr ?p \<and> header_byte ?p = 0x5A \<and>
             Verify_CRC16_Check_Sum ccitt ?frame = Inr True"
    using scenario_rx_decoded scenario_rx_verifies by simp
  note equal = receiveData_color_mismatch
      [where frame = ?frame and p = ?p and c = ccitt and ch = "[]"
         and s = "boot\<lparr>present_color := 0, ready_results := [True], set_results := [Some True]\<rparr>",
       THEN mp, OF hyp]
  note refused = receiveData_color_mismatch
      [where frame = ?frame and p = ?p and c = ccitt and ch = "[]"
         and s = "boot\<lparr>ready_results := [True], set_results := [Some False]\<rparr>",
       THEN mp, OF hyp]
  have w: "receiveData ccitt [] t = Waiting t" if "shutdown t = None" for t
    using receiveData_waiting [of t ccitt] that
    by (simp add: alive_for_def spend_def shutdown_same)
  have one: "receive_body ccitt (map Byte ?frame)
     (boot\<lparr>present_color := 0, ready_results := [True], set_results := [Some True]\<rparr>) =
     Continue []
       (boot\<lparr>present_color := 0, ready_results := [True], set_results := [Some True],
          events := [PublishJointState
                       [(''pitch_joint'', 0x3F800000), (''yaw_joint'', 0x40000000)]]\<rparr>)"
    using equal by (simp add: Let_def boot_def)
  have two: "receive_body ccitt (map Byte ?frame)
     (boot\<lparr>ready_results := [True], set_results := [Some False]\<rparr>) =
     Continue []
       (boot\<lparr>events := [PublishJointState
                             [(''pitch_joint'', 0x3F800000), (''yaw_joint'', 0x40000000)],
                           SetParameters ''detect_color'' 1,
                           Log Error ''Failed to set color'' []]\<rparr>)"
    using refused
    by (simp add: Let_def boot_def service_is_ready_def granted_def)
  have three: "receiveData ccitt (map Byte ?frame)
     (boot\<lparr>ready_results := [True], set_results := [Some False]\<rparr>) =
     Waiting
       (boot\<lparr>events := [PublishJointState
                             [(''pitch_joint'', 0x3F800000), (''yaw_joint'', 0x40000000)],
                           SetParameters ''detect_color'' 1,
                           Log Error ''Failed to set color'' []]\<rparr>)"
    using refused
    by (simp add: Let_def boot_def service_is_ready_def granted_def alive_for_def spend_def w)
  from one two three show ?thesis
    by blast
qed

subsection \<open>Start-up\<close>

lemma callback_out_of_range:
  "length result = length requested_parameters \<Longrightarrow>
   get_parameters_callback result s = Inl OutOfRange"
  by (simp add: get_parameters_callback_def vector_at_def requested_parameters_def)

text \<open>
  On an answer with a second element the value is stored as the member holds it: \<open>2 ^ 32\<close>
  becomes 0.
\<close>

lemma callback_stores_narrowed:
  "get_parameters_callback [(''detect_color'', 1), (''other'', 4294967296)] boot =
     Inr (boot\<lparr>present_color := 0, events := [Log Info ''Present color: %d.'' [0]]\<rparr>)"
  by (simp add: get_parameters_callback_def vector_at_def int32_of_def emit_def boot_def)

text \<open>
  C10. Start-up indexing: the constructor requests exactly one parameter,
  \<^verbatim>\<open>detect_color\<close>, and its completion callback reads element 1 of the vector returned. The
  claim is that on a vector holding exactly the requested parameters this read is within
  bounds. It is not: on the one-element answer the checked read raises
  \<^verbatim>\<open>std::out_of_range\<close> and the present colour is never set.
\<close>

theorem startup_callback_out_of_range:
  "length [(''detect_color'', 0 :: int)] = length requested_parameters \<and>
   get_parameters_callback [(''detect_color'', 0)] boot = Inl OutOfRange"
  by (simp add: get_parameters_callback_def vector_at_def requested_parameters_def)

end
